theory Spec2Isabelle
  imports Complex_Main "HOL-Library.Sublist" "HOL-Library.Log_Nat"
begin

section \<open>Expense tracker backend: the router of the API\<close>

text \<open>
  The router keeps income and expense records in a document store and answers HTTP
  requests about them. The handlers are modelled as functions from the request and the
  store to a response (and the new store, where the handler writes). The store is the
  list of documents in its natural order, so that \<open>Expense.find(cond)\<close> is a
  \<open>filter\<close> over it.
\<close>

subsection \<open>Strings\<close>

text \<open>
  A JavaScript string is the list of its UTF-16 code units, each a natural number
  below 65536. \<open>str\<close> gives the string of an ASCII literal.
\<close>

type_synonym jschar = nat

type_synonym jsstring = "nat list"

definition str :: "string \<Rightarrow> jsstring" where
  "str s = map of_char s"

subsection \<open>Numbers\<close>

text \<open>
  A JavaScript number is an IEEE 754 double: a finite value (a rational, the positive
  zero among them), the negative zero, an infinity or NaN; the rationals a double can
  hold are those \<open>round_double\<close> leaves as they are. \<open>round_double q\<close> is the
  double nearest to the rational \<open>q\<close>, ties going to the even significand: the unit
  in the last place is \<open>2\<close> to the power \<open>e - 52\<close> for the binary exponent
  \<open>e\<close> of \<open>q\<close>, never less than \<open>-1022\<close>, and a result of magnitude
  \<open>2\<close> to the \<open>1024\<close> or more is an infinity. \<open>js_add\<close> and
  \<open>js_sub\<close> are \<open>+\<close> and \<open>-\<close> on numbers, \<open>to_boolean\<close> is
  ToBoolean and \<open>or_zero n\<close> is \<open>n || 0\<close>.
\<close>

datatype jsnumber = Finite rat | NegZero | PosInf | NegInf | NaN

definition exponent :: "rat \<Rightarrow> int" where
  "exponent q =
     (case quotient_of \<bar>q\<bar> of
        (a, b) \<Rightarrow> (let d = bitlen a - bitlen b in if 2 powi d \<le> \<bar>q\<bar> then d else d - 1))"

definition round_half_even :: "rat \<Rightarrow> int" where
  "round_half_even x =
     (let f = \<lfloor>x\<rfloor>; r = x - of_int f
      in if r < 1 / 2 then f
         else if 1 / 2 < r then f + 1
         else if even f then f
         else f + 1)"

definition overflow_threshold :: rat where
  "overflow_threshold = 2 powi 1024"

definition round_double :: "rat \<Rightarrow> jsnumber" where
  "round_double q =
     (if q = 0 then Finite 0
      else (let e = max (exponent q) (- 1022);
                ulp = 2 powi (e - 52);
                n = round_half_even (q / ulp);
                r = of_int n * ulp
            in if overflow_threshold \<le> \<bar>r\<bar> then (if 0 < q then PosInf else NegInf)
               else if n = 0 then (if q < 0 then NegZero else Finite 0)
               else Finite r))"

fun js_add :: "jsnumber \<Rightarrow> jsnumber \<Rightarrow> jsnumber" where
  "js_add NaN y = NaN"
| "js_add x NaN = NaN"
| "js_add PosInf NegInf = NaN"
| "js_add NegInf PosInf = NaN"
| "js_add PosInf y = PosInf"
| "js_add x PosInf = PosInf"
| "js_add NegInf y = NegInf"
| "js_add x NegInf = NegInf"
| "js_add NegZero y = y"
| "js_add x NegZero = x"
| "js_add (Finite a) (Finite b) = round_double (a + b)"

fun js_neg :: "jsnumber \<Rightarrow> jsnumber" where
  "js_neg (Finite q) = (if q = 0 then NegZero else Finite (- q))"
| "js_neg NegZero = Finite 0"
| "js_neg PosInf = NegInf"
| "js_neg NegInf = PosInf"
| "js_neg NaN = NaN"

definition js_sub :: "jsnumber \<Rightarrow> jsnumber \<Rightarrow> jsnumber" where
  "js_sub x y = js_add x (js_neg y)"

fun to_boolean :: "jsnumber \<Rightarrow> bool" where
  "to_boolean NaN = False"
| "to_boolean NegZero = False"
| "to_boolean (Finite q) = (q \<noteq> 0)"
| "to_boolean PosInf = True"
| "to_boolean NegInf = True"

definition or_zero :: "jsnumber \<Rightarrow> jsnumber" where
  "or_zero n = (if to_boolean n then n else Finite 0)"

subsection \<open>Calendar instants\<close>

text \<open>
  A dayjs object wraps a JavaScript \<open>Date\<close>. It is modelled by the arguments of
  the \<open>Date\<close> constructor that builds it (\<open>month\<close> counts from 0, as
  \<open>$M\<close> does), and \<open>valueOf\<close> is the time value in milliseconds the
  constructor computes from them (MakeDay, MakeTime and MakeDate of ECMAScript, in the
  proleptic Gregorian calendar), which also normalises a day or a month out of range.
  The server's time zone is taken to be UTC, and the year is taken as it stands (the
  constructor reads a year from 0 to 99 as 1900 and later).
\<close>

record dayjs =
  year :: int
  month :: int
  day :: int
  hour :: int
  minute :: int
  second :: int
  millisecond :: int

definition days_from_civil :: "int \<Rightarrow> int \<Rightarrow> int" where
  \<comment> \<open>day number, from 1970-01-01, of the first day of month \<open>m\<close> (1 to 12) of year \<open>y\<close>\<close>
  "days_from_civil y m =
     (let y' = (if m \<le> 2 then y - 1 else y);
          mp = (if m > 2 then m - 3 else m + 9)
      in 365 * y' + y' div 4 - y' div 100 + y' div 400 + (153 * mp + 2) div 5 - 719468)"

definition make_day :: "int \<Rightarrow> int \<Rightarrow> int \<Rightarrow> int" where
  "make_day y m d = days_from_civil (y + m div 12) (m mod 12 + 1) + d - 1"

definition valueOf :: "dayjs \<Rightarrow> int" where
  "valueOf t =
     make_day (year t) (month t) (day t) * 86400000
       + hour t * 3600000 + minute t * 60000 + second t * 1000 + millisecond t"

subsection \<open>Documents\<close>

text \<open>
  Modelled from the spec: the schemas of \<open>models/expense.js\<close> and
  \<open>models/user.js\<close> are not among the sources. A record has an id, an owner, a type,
  an amount, a category, a date and a description. The field \<open>amount\<close> holds the number
  that \<open>Number(r.amount)\<close> reads from the stored amount (NaN when it is not numeric),
  and \<open>date\<close> the instant that \<open>dayjs(r.date, "DD-MM-YYYY")\<close> reads from the stored
  calendar date. Category and description are optional. An ObjectId is a natural number,
  the value of its 24 hexadecimal digits.
\<close>

type_synonym object_id = nat

record expense =
  rid :: object_id
  userId :: object_id
  rtype :: jsstring
  amount :: jsnumber
  category :: "jsstring option"
  date :: dayjs
  description :: "jsstring option"

record user =
  uid :: object_id
  name :: jsstring
  email :: jsstring
  password :: jsstring

record totals =
  totalIncome :: jsnumber
  totalExpense :: jsnumber
  totalBalance :: jsnumber

subsection \<open>Utility function for totals\<close>

definition calculateTotals :: "expense list \<Rightarrow> totals" where
  "calculateTotals records =
     (let totalIncome =
            foldl (\<lambda>sum r. js_add sum (or_zero (amount r))) (Finite 0)
              (filter (\<lambda>r. rtype r = str ''Income'') records);
          totalExpense =
            foldl (\<lambda>sum r. js_add sum (or_zero (amount r))) (Finite 0)
              (filter (\<lambda>r. rtype r = str ''Expense'') records);
          totalBalance = js_sub totalIncome totalExpense
      in \<lparr>totalIncome = totalIncome, totalExpense = totalExpense,
          totalBalance = totalBalance\<rparr>)"

text \<open>
  What the spec calls the amount of a record, after coercion: the numeric amount, and 0
  for an amount that is not a number; and the sum of the amounts of the records of one
  type, in the arithmetic of the rationals. \<open>integer_amount\<close> holds of an amount
  that is an integer or coerced to 0, and \<open>amount_int\<close> is that integer. An
  infinite amount has no rational value: it counts as 0 in \<open>amount_value\<close>, and
  \<open>integer_amount\<close> is false of it.
\<close>

fun amount_value :: "jsnumber \<Rightarrow> rat" where
  "amount_value (Finite q) = q"
| "amount_value NegZero = 0"
| "amount_value PosInf = 0"
| "amount_value NegInf = 0"
| "amount_value NaN = 0"

fun integer_amount :: "jsnumber \<Rightarrow> bool" where
  "integer_amount (Finite q) = (of_int \<lfloor>q\<rfloor> = q)"
| "integer_amount NegZero = True"
| "integer_amount PosInf = False"
| "integer_amount NegInf = False"
| "integer_amount NaN = True"

definition amount_int :: "expense \<Rightarrow> int" where
  "amount_int r = \<lfloor>amount_value (amount r)\<rfloor>"

definition sum_amounts :: "jsstring \<Rightarrow> expense list \<Rightarrow> rat" where
  "sum_amounts ty records =
     sum_list (map (\<lambda>r. amount_value (amount r)) (filter (\<lambda>r. rtype r = ty) records))"

subsection \<open>Requests and responses\<close>

text \<open>
  A field of a JSON request body is absent (\<open>None\<close>, JavaScript's
  \<open>undefined\<close>) or a JSON value; \<open>truthy\<close> is ToBoolean on it. A query
  parameter, as Express parses it, is absent, a string, an array or an object.
\<close>

datatype json =
    JNull
  | JBool bool
  | JNum rat
  | JStr jsstring
  | JArr "json list"
  | JObj "(jsstring \<times> json) list"

fun truthy :: "json option \<Rightarrow> bool" where
  "truthy None = False"
| "truthy (Some JNull) = False"
| "truthy (Some (JBool b)) = b"
| "truthy (Some (JNum q)) = (q \<noteq> 0)"
| "truthy (Some (JStr s)) = (s \<noteq> [])"
| "truthy (Some (JArr xs)) = True"
| "truthy (Some (JObj kvs)) = True"

datatype qparam =
    QStr jsstring
  | QArr "qparam list"
  | QObj "(jsstring \<times> qparam) list"

text \<open>
  A response is its status code and its JSON body. \<open>Error m\<close> is the body
  \<open>{error: m}\<close> and \<open>Message m\<close> the body \<open>{message: m}\<close>;
  \<open>CastError v\<close> is the body \<open>{error: m}\<close> where \<open>m\<close> is the message of
  the error Mongoose throws when it cannot cast the value \<open>v\<close> to an ObjectId. The
  other constructors are the bodies of the successful answers, with the totals spread
  into them where the handler does so.
\<close>

datatype payload =
    Error jsstring
  | CastError jsstring
  | Message jsstring
  | Created expense totals
  | AllExpenses totals "expense list"
  | Record expense
  | Updated expense totals
  | Deleted expense totals
  | Filtered jsstring "expense list"
  | SearchResults jsstring nat "expense list"
  | LoggedIn jsstring object_id jsstring jsstring

type_synonym response = "nat \<times> payload"

subsection \<open>Create\<close>

text \<open>
  \<open>dayjs_isValid d\<close> stands for \<open>dayjs(d).isValid()\<close> on the raw body field and
  \<open>Expense_create\<close> for the casting, validation and id allocation of
  \<open>Expense.create\<close> under the schema, which is not among the sources: both are
  parameters. \<open>Inl m\<close> is a rejected promise with message \<open>m\<close>, which the
  handler's \<open>catch\<close> turns into a 500.
\<close>

record create_body =
  b_type :: "json option"
  b_amount :: "json option"
  b_category :: "json option"
  b_date :: "json option"
  b_description :: "json option"

definition create_expense ::
  "(json option \<Rightarrow> bool) \<Rightarrow> (create_body \<Rightarrow> object_id \<Rightarrow> expense list \<Rightarrow> jsstring + expense)
     \<Rightarrow> user \<Rightarrow> create_body \<Rightarrow> expense list \<Rightarrow> response \<times> expense list" where
  "create_expense dayjs_isValid Expense_create u body st =
     (if \<not> truthy (b_type body) \<or> \<not> truthy (b_amount body) \<or> \<not> truthy (b_date body)
      then ((400, Error (str ''Type, amount, and date are required.'')), st)
      else if \<not> dayjs_isValid (b_date body)
      then ((400, Error (str ''Invalid date format.'')), st)
      else (case Expense_create body (uid u) st of
              Inl m \<Rightarrow> ((500, Error m), st)
            | Inr doc \<Rightarrow>
                (let newRecord = doc\<lparr>userId := uid u\<rparr>;
                     st' = st @ [newRecord];
                     allRecords = filter (\<lambda>r. userId r = uid u) st';
                     totals = calculateTotals allRecords
                 in ((201, Created newRecord totals), st'))))"

subsection \<open>Ids in the path\<close>

text \<open>
  The path parameter \<open>:id\<close> is any string. The queries by id cast it to an
  ObjectId first: a string of 24 hexadecimal digits is one, and for any other string
  the query throws, which the \<open>catch\<close> of each handler answers with a 500. (An
  older driver also takes a string of 12 characters for an ObjectId; here it is not
  one.)
\<close>

definition hex_digit :: "jschar \<Rightarrow> nat option" where
  "hex_digit c =
     (if 48 \<le> c \<and> c \<le> 57 then Some (c - 48)
      else if 97 \<le> c \<and> c \<le> 102 then Some (c - 87)
      else if 65 \<le> c \<and> c \<le> 70 then Some (c - 55)
      else None)"

definition hex_value :: "jsstring \<Rightarrow> nat" where
  "hex_value s = foldl (\<lambda>v c. 16 * v + (case hex_digit c of None \<Rightarrow> 0 | Some d \<Rightarrow> d)) 0 s"

definition castObjectId :: "jsstring \<Rightarrow> object_id option" where
  "castObjectId s =
     (if length s = 24 \<and> list_all (\<lambda>c. hex_digit c \<noteq> None) s then Some (hex_value s)
      else None)"

subsection \<open>Read\<close>

definition all_expenses :: "user \<Rightarrow> expense list \<Rightarrow> response" where
  "all_expenses u st =
     (let records = filter (\<lambda>r. userId r = uid u) st;
          totals = calculateTotals records
      in (200, AllExpenses totals records))"

definition findById :: "object_id \<Rightarrow> expense list \<Rightarrow> expense option" where
  "findById i st = find (\<lambda>r. rid r = i) st"

definition get_expense :: "user \<Rightarrow> jsstring \<Rightarrow> expense list \<Rightarrow> response" where
  "get_expense u idstr st =
     (case castObjectId idstr of
        None \<Rightarrow> (500, CastError idstr)
      | Some i \<Rightarrow>
          (case findById i st of
             None \<Rightarrow> (404, Error (str ''Record not found''))
           | Some record \<Rightarrow> (200, Record record)))"

subsection \<open>Update and delete\<close>

text \<open>
  Modelled from the spec: an update replaces fields of the record with the given id.
  The request body of an update names the fields to set; how Mongoose casts it depends
  on the schema, so the body is taken after casting.
\<close>

record expense_update =
  new_type :: "jsstring option"
  new_amount :: "jsnumber option"
  new_category :: "jsstring option"
  new_date :: "dayjs option"
  new_description :: "jsstring option"

definition apply_update :: "expense_update \<Rightarrow> expense \<Rightarrow> expense" where
  "apply_update b r =
     r\<lparr>rtype := (case new_type b of None \<Rightarrow> rtype r | Some t \<Rightarrow> t),
       amount := (case new_amount b of None \<Rightarrow> amount r | Some a \<Rightarrow> a),
       category := (case new_category b of None \<Rightarrow> category r | Some c \<Rightarrow> Some c),
       date := (case new_date b of None \<Rightarrow> date r | Some d \<Rightarrow> d),
       description := (case new_description b of None \<Rightarrow> description r | Some d \<Rightarrow> Some d)\<rparr>"

fun findByIdAndUpdate ::
  "object_id \<Rightarrow> expense_update \<Rightarrow> expense list \<Rightarrow> expense option \<times> expense list" where
  "findByIdAndUpdate i b [] = (None, [])"
| "findByIdAndUpdate i b (r # rs) =
     (if rid r = i then (Some (apply_update b r), apply_update b r # rs)
      else (case findByIdAndUpdate i b rs of (found, rs') \<Rightarrow> (found, r # rs')))"

fun findByIdAndDelete :: "object_id \<Rightarrow> expense list \<Rightarrow> expense option \<times> expense list" where
  "findByIdAndDelete i [] = (None, [])"
| "findByIdAndDelete i (r # rs) =
     (if rid r = i then (Some r, rs)
      else (case findByIdAndDelete i rs of (found, rs') \<Rightarrow> (found, r # rs')))"

definition update_expense ::
  "user \<Rightarrow> jsstring \<Rightarrow> expense_update \<Rightarrow> expense list \<Rightarrow> response \<times> expense list" where
  "update_expense u idstr body st =
     (case castObjectId idstr of
        None \<Rightarrow> ((500, CastError idstr), st)
      | Some i \<Rightarrow>
          (case findByIdAndUpdate i body st of
             (None, st') \<Rightarrow> ((404, Error (str ''Record not found'')), st')
           | (Some updatedRecord, st') \<Rightarrow>
               (let allRecords = st';
                    totals = calculateTotals allRecords
                in ((200, Updated updatedRecord totals), st'))))"

definition delete_expense ::
  "user \<Rightarrow> jsstring \<Rightarrow> expense list \<Rightarrow> response \<times> expense list" where
  "delete_expense u idstr st =
     (case castObjectId idstr of
        None \<Rightarrow> ((500, CastError idstr), st)
      | Some i \<Rightarrow>
          (case findByIdAndDelete i st of
             (None, st') \<Rightarrow> ((404, Error (str ''Record not found'')), st')
           | (Some deletedRecord, st') \<Rightarrow>
               (let allRecords = st';
                    totals = calculateTotals allRecords
                in ((200, Deleted deletedRecord totals), st'))))"

subsection \<open>Expenses by time filter\<close>

text \<open>
  \<open>startOf\<close> and \<open>endOf\<close> of dayjs for the units the handler uses. A day
  keeps the date and sets the clock, through \<open>setHours\<close>; a month and a year go
  through \<open>new Date($y, m, d)\<close>, the end of a month being day 0 of the month after.
\<close>

definition startOf_day :: "dayjs \<Rightarrow> dayjs" where
  "startOf_day t = t\<lparr>hour := 0, minute := 0, second := 0, millisecond := 0\<rparr>"

definition endOf_day :: "dayjs \<Rightarrow> dayjs" where
  "endOf_day t = t\<lparr>hour := 23, minute := 59, second := 59, millisecond := 999\<rparr>"

definition instanceFactory :: "dayjs \<Rightarrow> int \<Rightarrow> int \<Rightarrow> dayjs" where
  "instanceFactory t d m =
     \<lparr>year = year t, month = m, day = d, hour = 0, minute = 0, second = 0, millisecond = 0\<rparr>"

definition startOf_month :: "dayjs \<Rightarrow> dayjs" where
  "startOf_month t = instanceFactory t 1 (month t)"

definition endOf_month :: "dayjs \<Rightarrow> dayjs" where
  "endOf_month t = endOf_day (instanceFactory t 0 (month t + 1))"

definition startOf_year :: "dayjs \<Rightarrow> dayjs" where
  "startOf_year t = instanceFactory t 1 0"

definition endOf_year :: "dayjs \<Rightarrow> dayjs" where
  "endOf_year t = endOf_day (instanceFactory t 31 11)"

text \<open>
  \<open>isBefore\<close> and \<open>isAfter\<close> compare time values; \<open>isBetween\<close> is the
  plugin's test with the inclusivity \<open>"[]"\<close> the handler passes.
\<close>

definition isBefore :: "dayjs \<Rightarrow> dayjs \<Rightarrow> bool" where
  "isBefore this that = (valueOf this < valueOf that)"

definition isAfter :: "dayjs \<Rightarrow> dayjs \<Rightarrow> bool" where
  "isAfter this that = (valueOf that < valueOf this)"

definition isBetween :: "dayjs \<Rightarrow> dayjs \<Rightarrow> dayjs \<Rightarrow> bool" where
  "isBetween this a b =
     ((\<not> isBefore this a \<and> \<not> isAfter this b) \<or> (\<not> isAfter this a \<and> \<not> isBefore this b))"

definition validFilters :: "jsstring list" where
  "validFilters = [str ''today'', str ''month'', str ''year'']"

definition time_window :: "jsstring \<Rightarrow> dayjs \<Rightarrow> dayjs \<times> dayjs" where
  "time_window flt now =
     (if flt = str ''today'' then (startOf_day now, endOf_day now)
      else if flt = str ''month'' then (startOf_month now, endOf_month now)
      else (startOf_year now, endOf_year now))"

definition invalid_filter :: response where
  "invalid_filter =
     (400, Error (str ''Invalid filter. Use '' @ [39] @ str ''today'' @ [39] @ str '', ''
        @ [39] @ str ''month'' @ [39] @ str '', or '' @ [39] @ str ''year''
        @ [39] @ str ''.''))"

fun expenses_by_time :: "user \<Rightarrow> dayjs \<Rightarrow> qparam option \<Rightarrow> expense list \<Rightarrow> response" where
  "expenses_by_time u now (Some (QStr flt)) st =
     (if flt \<notin> set validFilters then invalid_filter
      else (case time_window flt now of
              (startDate, endDate) \<Rightarrow>
                (let allRecords = filter (\<lambda>r. userId r = uid u) st;
                     filteredRecords = filter (\<lambda>r. isBetween (date r) startDate endDate) allRecords
                 in (200, Filtered (str ''Expenses for '' @ flt) filteredRecords))))"
| "expenses_by_time u now other st = invalid_filter"

subsection \<open>Expenses by search query\<close>

text \<open>
  \<open>trim\<close> strips the white space and the line terminators of ECMAScript from both
  ends. The query becomes the source of a regular expression with the flag \<open>i\<close>.
  The fragment modelled is a sequence of ordinary characters and dots: \<open>RegExp\<close> is
  \<open>None\<close> for a source with any other operator of the pattern language, and then
  the search is \<open>None\<close> too, the answer lying outside this model. A dot matches
  every code unit but a line terminator. Two code units match without case when
  \<open>Canonicalize\<close> maps them to the same one: a code unit is replaced by its upper
  case, unless that is not a single code unit or leads from outside ASCII into ASCII.
  The upper case of a code unit outside ASCII is a table of Unicode and a parameter,
  \<open>toUpperCase\<close>, which gives the code unit back where its upper case is not a
  single code unit. \<open>$regex\<close> matches a string field that has a match anywhere in
  it, and never an absent field.
\<close>

definition white_space :: "jschar list" where
  "white_space =
     [9, 10, 11, 12, 13, 32, 160, 5760, 8192, 8193, 8194, 8195, 8196, 8197, 8198, 8199, 8200,
      8201, 8202, 8232, 8233, 8239, 8287, 12288, 65279]"

definition is_space :: "jschar \<Rightarrow> bool" where
  "is_space c = (c \<in> set white_space)"

definition trim :: "jsstring \<Rightarrow> jsstring" where
  "trim s = rev (dropWhile is_space (rev (dropWhile is_space s)))"

definition ascii_upper :: "jschar \<Rightarrow> jschar" where
  "ascii_upper c = (if 97 \<le> c \<and> c \<le> 122 then c - 32 else c)"

definition Canonicalize :: "(jschar \<Rightarrow> jschar) \<Rightarrow> jschar \<Rightarrow> jschar" where
  "Canonicalize toUpperCase ch =
     (let cu = (if ch < 128 then ascii_upper ch else toUpperCase ch)
      in if 128 \<le> ch \<and> cu < 128 then ch else cu)"

datatype atom = Lit jschar | AnyChar

definition metachars :: "jschar list" where
  "metachars = 92 # str ''^$.*+?()[]{}|''"

definition parse_atom :: "jschar \<Rightarrow> atom option" where
  "parse_atom c =
     (if c = 46 then Some AnyChar
      else if c \<in> set metachars then None
      else Some (Lit c))"

fun RegExp :: "jsstring \<Rightarrow> atom list option" where
  "RegExp [] = Some []"
| "RegExp (c # cs) =
     (case parse_atom c of
        None \<Rightarrow> None
      | Some a \<Rightarrow> (case RegExp cs of None \<Rightarrow> None | Some as \<Rightarrow> Some (a # as)))"

fun atom_matches :: "(jschar \<Rightarrow> jschar) \<Rightarrow> atom \<Rightarrow> jschar \<Rightarrow> bool" where
  "atom_matches up (Lit c) d = (Canonicalize up c = Canonicalize up d)"
| "atom_matches up AnyChar d = (d \<notin> set [10, 13, 8232, 8233])"

fun match_here :: "(jschar \<Rightarrow> jschar) \<Rightarrow> atom list \<Rightarrow> jsstring \<Rightarrow> bool" where
  "match_here up [] s = True"
| "match_here up (a # as) [] = False"
| "match_here up (a # as) (c # cs) = (atom_matches up a c \<and> match_here up as cs)"

fun regex_test :: "(jschar \<Rightarrow> jschar) \<Rightarrow> atom list \<Rightarrow> jsstring \<Rightarrow> bool" where
  "regex_test up p [] = match_here up p []"
| "regex_test up p (c # cs) = (match_here up p (c # cs) \<or> regex_test up p cs)"

fun regex_field :: "(jschar \<Rightarrow> jschar) \<Rightarrow> atom list \<Rightarrow> jsstring option \<Rightarrow> bool" where
  "regex_field up p None = False"
| "regex_field up p (Some s) = regex_test up p s"

fun search_expenses ::
  "(jschar \<Rightarrow> jschar) \<Rightarrow> user \<Rightarrow> qparam option \<Rightarrow> expense list \<Rightarrow> response option" where
  "search_expenses toUpperCase u None st =
     Some (400, Error (str ''Query parameter is required''))"
| "search_expenses toUpperCase u (Some (QStr query)) st =
     (if query = [] \<or> trim query = []
      then Some (400, Error (str ''Query parameter is required''))
      else (case RegExp query of
              None \<Rightarrow> None
            | Some regex \<Rightarrow>
                (let results =
                       filter (\<lambda>r. regex_field toUpperCase regex (category r)
                                  \<or> regex_field toUpperCase regex (description r)
                                  \<or> regex_test toUpperCase regex (rtype r)) st
                 in Some (200, SearchResults
                            (str ''Search results for '' @ [34] @ query @ [34])
                            (length results) results))))"
| "search_expenses toUpperCase u (Some other) st =
     Some (500, Error (str ''query.trim is not a function''))"

text \<open>
  What the spec says a search returns, in its own words: the records whose category,
  description or type contains the query as a substring, case-insensitively.
\<close>

definition contains_ci :: "(jschar \<Rightarrow> jschar) \<Rightarrow> jsstring \<Rightarrow> jsstring \<Rightarrow> bool" where
  "contains_ci up q s = sublist (map (Canonicalize up) q) (map (Canonicalize up) s)"

fun field_contains_ci :: "(jschar \<Rightarrow> jschar) \<Rightarrow> jsstring \<Rightarrow> jsstring option \<Rightarrow> bool" where
  "field_contains_ci up q None = False"
| "field_contains_ci up q (Some s) = contains_ci up q s"

definition spec_search :: "(jschar \<Rightarrow> jschar) \<Rightarrow> jsstring \<Rightarrow> expense list \<Rightarrow> expense list" where
  "spec_search up q st =
     filter (\<lambda>r. field_contains_ci up q (category r) \<or> field_contains_ci up q (description r)
                \<or> contains_ci up q (rtype r)) st"

subsection \<open>Login\<close>

text \<open>
  \<open>emailRegex_test\<close> is the test of
  \<open>/^[a-zA-Z0-9._%+-]+@[a-zA-Z0-9.-]+\.[a-zA-Z]{2,}$/\<close>. Neither class holds
  \<open>@\<close>, so the \<open>@\<close> of a match is the first of the string; the last class holds
  no dot, so the dot of a match is the last of the string.
  \<open>bcrypt.compare\<close> and \<open>jwt.sign\<close> (with the secret and the expiry fixed) are
  parameters of the handler; its next two arguments are the fields \<open>email\<close> and
  \<open>password\<close> of the request body, absent or strings.
\<close>

definition is_alpha :: "jschar \<Rightarrow> bool" where
  "is_alpha c = (c \<in> set (str ''abcdefghijklmnopqrstuvwxyzABCDEFGHIJKLMNOPQRSTUVWXYZ''))"

definition is_alnum :: "jschar \<Rightarrow> bool" where
  "is_alnum c = (is_alpha c \<or> c \<in> set (str ''0123456789''))"

definition local_char :: "jschar \<Rightarrow> bool" where
  "local_char c = (is_alnum c \<or> c \<in> set (str ''._%+-''))"

definition domain_char :: "jschar \<Rightarrow> bool" where
  "domain_char c = (is_alnum c \<or> c \<in> set (str ''.-''))"

definition emailRegex_test :: "jsstring \<Rightarrow> bool" where
  "emailRegex_test s =
     (let local = takeWhile (\<lambda>c. c \<noteq> 64) s;
          rest = dropWhile (\<lambda>c. c \<noteq> 64) s;
          host = tl rest;
          tld = rev (takeWhile (\<lambda>c. c \<noteq> 46) (rev host));
          dom = rev (tl (dropWhile (\<lambda>c. c \<noteq> 46) (rev host)))
      in local \<noteq> [] \<and> list_all local_char local
         \<and> rest \<noteq> []
         \<and> 46 \<in> set host
         \<and> dom \<noteq> [] \<and> list_all domain_char dom
         \<and> 2 \<le> length tld \<and> list_all is_alpha tld)"

fun login ::
  "(jsstring \<Rightarrow> jsstring \<Rightarrow> bool) \<Rightarrow> (object_id \<Rightarrow> jsstring \<Rightarrow> jsstring)
     \<Rightarrow> jsstring option \<Rightarrow> jsstring option \<Rightarrow> user list \<Rightarrow> response" where
  "login bcrypt_compare jwt_sign (Some e) (Some p) users =
     (if e = [] \<or> p = [] then (400, Message (str ''Email and password are required''))
      else if \<not> emailRegex_test e then (400, Message (str ''Invalid email format''))
      else (case find (\<lambda>u. email u = e) users of
              None \<Rightarrow> (404, Message (str ''User not found''))
            | Some user \<Rightarrow>
                (if \<not> bcrypt_compare p (password user)
                 then (400, Message (str ''Invalid password''))
                 else (200, LoggedIn (jwt_sign (uid user) (email user))
                              (uid user) (name user) (email user)))))"
| "login bcrypt_compare jwt_sign e p users =
     (400, Message (str ''Email and password are required''))"

subsection \<open>Comparison with zero, and example data\<close>


definition rec1 :: expense where
  "rec1 = \<lparr>rid = 1, userId = 1, rtype = str ''Income'', amount = Finite 100,
           category = Some (str ''Salary''),
           date = \<lparr>year = 2024, month = 2, day = 15, hour = 0, minute = 0, second = 0,
                   millisecond = 0\<rparr>,
           description = None\<rparr>"

definition rec2 :: expense where
  "rec2 = \<lparr>rid = 2, userId = 2, rtype = str ''Income'', amount = Finite 40,
           category = Some (str ''Groceries''),
           date = \<lparr>year = 2024, month = 2, day = 14, hour = 0, minute = 0, second = 0,
                   millisecond = 0\<rparr>,
           description = Some (str ''refund'')\<rparr>"


definition alice :: user where
  "alice = \<lparr>uid = 1, name = str ''Alice'', email = str ''alice@example.com'',
             password = str ''$2b$10$hash''\<rparr>"

definition bob :: user where
  "bob = \<lparr>uid = 2, name = str ''Bob'', email = str ''bob@example.com'',
           password = str ''$2b$10$other''\<rparr>"


definition raise10 :: expense_update where
  "raise10 = \<lparr>new_type = None, new_amount = Some (Finite 10), new_category = None,
               new_date = None, new_description = None\<rparr>"

definition id1 :: jsstring where
  "id1 = str ''000000000000000000000001''"

text \<open>
  Records with the amounts 2 to the power 53 and 2 to the power 1023, records with
  the doubles nearest to one tenth and to one fifth, and an id that is well formed and
  carried by no record above.
\<close>

definition big :: expense where
  "big = rec1\<lparr>amount := Finite 9007199254740992\<rparr>"

definition huge :: expense where
  "huge = rec1\<lparr>amount := Finite (2 ^ 1023)\<rparr>"

definition tenth :: expense where
  "tenth = rec1\<lparr>amount := Finite (3602879701896397 / 36028797018963968)\<rparr>"

definition fifth :: expense where
  "fifth = rec1\<lparr>amount := Finite (3602879701896397 / 18014398509481984)\<rparr>"

definition id10 :: jsstring where
  "id10 = str ''00000000000000000000000A''"

section \<open>Properties\<close>

subsection \<open>Rounding to a double\<close>

lemma pow2_pos: "(0::rat) < 2 powi k"
  by simp

lemma int_pow2_bounds:
  fixes x :: int
  assumes "0 < x"
  shows "(2::rat) powi (bitlen x - 1) \<le> of_int x" "(of_int x :: rat) < 2 powi bitlen x"
proof -
  from assms have b1: "1 \<le> bitlen x" by (auto simp: bitlen_alt_def)
  from bitlen_bounds [OF assms] have l: "2 ^ nat (bitlen x - 1) \<le> x" and u: "x < 2 ^ nat (bitlen x)"
    by simp_all
  from l have "(of_int (2 ^ nat (bitlen x - 1)) :: rat) \<le> of_int x" by (simp only: of_int_le_iff)
  with b1 show "(2::rat) powi (bitlen x - 1) \<le> of_int x" by (simp add: power_int_def)
  from u have "(of_int x :: rat) < of_int (2 ^ nat (bitlen x))" by (simp only: of_int_less_iff)
  with b1 show "(of_int x :: rat) < 2 powi bitlen x" by (simp add: power_int_def)
qed

lemma exponent_bounds:
  assumes "q \<noteq> 0"
  shows "2 powi exponent q \<le> \<bar>q\<bar>" "\<bar>q\<bar> < 2 powi (exponent q + 1)"
proof -
  obtain a b where ab: "quotient_of \<bar>q\<bar> = (a, b)" by (cases "quotient_of \<bar>q\<bar>")
  then have b: "0 < b" by (rule quotient_of_denom_pos)
  from ab have q: "\<bar>q\<bar> = of_int a / of_int b" by (rule quotient_of_div)
  from assms have "0 < \<bar>q\<bar>" by simp
  with q b have a: "0 < a" by (simp add: zero_less_divide_iff)
  define d where "d = bitlen a - bitlen b"
  note A = int_pow2_bounds [OF a] and B = int_pow2_bounds [OF b]
  have bpos: "(0::rat) < of_int b" using b by simp
  have up: "\<bar>q\<bar> < 2 powi (d + 1)"
  proof -
    have "of_int a / of_int b < (2::rat) powi bitlen a / of_int b"
      using A(2) bpos by (simp add: divide_strict_right_mono)
    also have "\<dots> \<le> 2 powi bitlen a / 2 powi (bitlen b - 1)"
      by (rule divide_left_mono [OF B(1) less_imp_le [OF pow2_pos] mult_pos_pos [OF bpos pow2_pos]])
    also have "\<dots> = 2 powi (d + 1)"
      by (simp add: d_def power_int_diff [symmetric] algebra_simps)
    finally show ?thesis by (simp add: q)
  qed
  have lo: "2 powi (d - 1) < \<bar>q\<bar>"
  proof -
    have "(2::rat) powi (d - 1) = 2 powi (bitlen a - 1) / 2 powi bitlen b"
      by (simp add: d_def power_int_diff [symmetric] algebra_simps)
    also have "\<dots> \<le> of_int a / 2 powi bitlen b"
      using A(1) by (simp add: divide_right_mono)
    also have "\<dots> < of_int a / of_int b"
      using B(2) a bpos by (intro divide_strict_left_mono) simp_all
    finally show ?thesis by (simp add: q)
  qed
  have e: "exponent q = (if 2 powi d \<le> \<bar>q\<bar> then d else d - 1)"
    by (simp add: exponent_def ab d_def Let_def)
  show "2 powi exponent q \<le> \<bar>q\<bar>" using lo by (simp add: e)
  show "\<bar>q\<bar> < 2 powi (exponent q + 1)" using up by (auto simp: e)
qed

lemma exponent_eqI:
  assumes "2 powi e \<le> \<bar>q\<bar>" "\<bar>q\<bar> < 2 powi (e + 1)"
  shows "exponent q = e"
proof -
  from assms(1) pow2_pos [of e] have "0 < \<bar>q\<bar>" by linarith
  then have nz: "q \<noteq> 0" by simp
  note X = exponent_bounds [OF nz]
  have "\<not> exponent q < e"
  proof
    assume "exponent q < e"
    then have "exponent q + 1 \<le> e" by simp
    then have "(2::rat) powi (exponent q + 1) \<le> 2 powi e" by (intro power_int_increasing) simp_all
    with X(2) assms(1) show False by simp
  qed
  moreover have "\<not> e < exponent q"
  proof
    assume "e < exponent q"
    then have "e + 1 \<le> exponent q" by simp
    then have "(2::rat) powi (e + 1) \<le> 2 powi exponent q" by (intro power_int_increasing) simp_all
    with X(1) assms(2) show False by simp
  qed
  ultimately show ?thesis by simp
qed

lemma round_half_even_of_int [simp]: "round_half_even (of_int m) = m"
  by (simp add: round_half_even_def)

lemma round_double_exact:
  assumes q: "q \<noteq> 0" and m: "q = of_int m * 2 powi (max (exponent q) (- 1022) - 52)"
    and small: "\<bar>q\<bar> < overflow_threshold"
  shows "round_double q = Finite q"
proof -
  define ulp :: rat where "ulp = 2 powi (max (exponent q) (- 1022) - 52)"
  have ulp: "0 < ulp" by (simp add: ulp_def)
  from m have qm: "q = of_int m * ulp" by (simp only: ulp_def)
  have "of_int m * ulp / ulp = (of_int m :: rat)" using ulp by simp
  with qm have "q / ulp = of_int m" by simp
  then have n: "round_half_even (q / ulp) = m" by simp
  from q qm have m0: "m \<noteq> 0" by auto
  have "round_double q =
      (if overflow_threshold \<le> \<bar>of_int (round_half_even (q / ulp)) * ulp\<bar>
       then (if 0 < q then PosInf else NegInf)
       else if round_half_even (q / ulp) = 0 then (if q < 0 then NegZero else Finite 0)
       else Finite (of_int (round_half_even (q / ulp)) * ulp))"
    using q by (simp add: round_double_def Let_def ulp_def)
  also have "\<dots> = Finite q"
    unfolding n qm [symmetric] using small m0 by simp
  finally show ?thesis .
qed

lemma round_double_int:
  assumes "\<bar>n\<bar> \<le> 2 ^ 53"
  shows "round_double (of_int n) = Finite (of_int n)"
proof (cases "n = 0")
  case True
  then show ?thesis by (simp add: round_double_def)
next
  case False
  define q :: rat where "q = of_int n"
  from False have nz: "q \<noteq> 0" by (simp add: q_def)
  from False have one: "1 \<le> \<bar>q\<bar>" by (simp add: q_def flip: of_int_abs)
  from assms have "(of_int \<bar>n\<bar> :: rat) \<le> of_int (2 ^ 53)" by (simp only: of_int_le_iff)
  then have le: "\<bar>q\<bar> \<le> 2 powi 53" by (simp add: q_def)
  note X = exponent_bounds [OF nz]
  have lo: "0 \<le> exponent q"
  proof (rule ccontr)
    assume "\<not> 0 \<le> exponent q"
    then have "exponent q + 1 \<le> 0" by simp
    then have "(2::rat) powi (exponent q + 1) \<le> 2 powi 0" by (intro power_int_increasing) simp_all
    with X(2) one show False by simp
  qed
  have hi: "exponent q \<le> 53"
  proof (rule power_int_le_imp_le_exp [of "2::rat"])
    show "(2::rat) powi exponent q \<le> 2 powi 53" using X(1) le by linarith
  qed simp_all
  from lo have mx: "max (exponent q) (- 1022) = exponent q" by simp
  have "\<exists>m. q = of_int m * 2 powi (exponent q - 52)"
  proof (cases "exponent q = 53")
    case True
    with X(1) le have "\<bar>q\<bar> = 2 powi 53" by simp
    then have "\<bar>n\<bar> = 2 ^ 53" by (simp add: q_def flip: of_int_abs)
    then have "n = 2 ^ 53 \<or> n = - (2 ^ 53)" by linarith
    then have "q = of_int (n div 2) * 2" by (auto simp: q_def)
    with True show ?thesis by auto
  next
    case False
    with hi have k: "0 \<le> 52 - exponent q" by simp
    have "(2::rat) powi (exponent q - 52) = 1 / 2 powi (52 - exponent q)"
      using power_int_minus_divide [of "2::rat" "52 - exponent q"] by simp
    also have "\<dots> = 1 / 2 ^ nat (52 - exponent q)" using k by (simp add: power_int_def)
    finally have "q = of_int (n * 2 ^ nat (52 - exponent q)) * 2 powi (exponent q - 52)"
      by (simp add: q_def)
    then show ?thesis ..
  qed
  then obtain m where m: "q = of_int m * 2 powi (max (exponent q) (- 1022) - 52)"
    unfolding mx ..
  have "(2::rat) powi 53 < 2 powi 1024" by (rule power_int_strict_increasing) simp_all
  with le have "\<bar>q\<bar> < overflow_threshold" unfolding overflow_threshold_def by linarith
  from round_double_exact [OF nz m this] show ?thesis by (simp add: q_def)
qed


subsection \<open>Totals\<close>

lemma str_eq_iff [simp]: "str a = str b \<longleftrightarrow> a = b"
  by (simp add: str_def inj_map_eq_map [OF inj_of_char])







lemma or_zero_integer:
  "integer_amount (amount r) \<Longrightarrow> or_zero (amount r) = Finite (of_int (amount_int r))"
  by (cases "amount r") (auto simp: or_zero_def amount_int_def)

lemma amount_value_integer:
  "integer_amount (amount r) \<Longrightarrow> amount_value (amount r) = of_int (amount_int r)"
  by (cases "amount r") (auto simp: amount_int_def)

lemma foldl_exact:
  assumes "\<forall>r\<in>set rs. integer_amount (amount r)"
    and "\<bar>a\<bar> + (\<Sum>r\<leftarrow>rs. \<bar>amount_int r\<bar>) \<le> 2 ^ 53"
  shows "foldl (\<lambda>sum r. js_add sum (or_zero (amount r))) (Finite (of_int a)) rs
           = Finite (of_int (a + (\<Sum>r\<leftarrow>rs. amount_int r)))"
  using assms
proof (induction rs arbitrary: a)
  case Nil
  then show ?case by simp
next
  case (Cons r rs)
  have nn: "0 \<le> (\<Sum>r\<leftarrow>rs. \<bar>amount_int r\<bar>)" by (rule sum_list_nonneg) auto
  from Cons.prems(2) nn have b: "\<bar>a + amount_int r\<bar> \<le> 2 ^ 53" by simp
  from Cons.prems(1) have "or_zero (amount r) = Finite (of_int (amount_int r))"
    by (simp add: or_zero_integer)
  then have step: "js_add (Finite (of_int a)) (or_zero (amount r)) = Finite (of_int (a + amount_int r))"
    using round_double_int [OF b] by simp
  from Cons.prems(2) have "\<bar>a + amount_int r\<bar> + (\<Sum>r\<leftarrow>rs. \<bar>amount_int r\<bar>) \<le> 2 ^ 53" by simp
  with Cons.IH [of "a + amount_int r"] Cons.prems(1) step show ?case
    by (simp add: add.assoc)
qed

lemma sum_abs_two_filters:
  fixes f :: "'a \<Rightarrow> int"
  assumes "\<And>x. \<not> (P x \<and> Q x)"
  shows "(\<Sum>x\<leftarrow>filter P xs. \<bar>f x\<bar>) + (\<Sum>x\<leftarrow>filter Q xs. \<bar>f x\<bar>) \<le> (\<Sum>x\<leftarrow>xs. \<bar>f x\<bar>)"
proof (induction xs)
  case Nil
  then show ?case by simp
next
  case (Cons x xs)
  with assms [of x] show ?case by auto
qed

lemma sum_abs_int:
  "\<forall>r\<in>set rs. integer_amount (amount r) \<Longrightarrow>
     (\<Sum>r\<leftarrow>rs. \<bar>amount_value (amount r)\<bar>) = of_int (\<Sum>r\<leftarrow>rs. \<bar>amount_int r\<bar>)"
  by (induction rs) (simp_all add: amount_value_integer)

lemma sum_amounts_int:
  "\<forall>r\<in>set rs. integer_amount (amount r) \<Longrightarrow>
     sum_amounts ty rs = of_int (\<Sum>r\<leftarrow>filter (\<lambda>r. rtype r = ty) rs. amount_int r)"
  unfolding sum_amounts_def
  by (induction rs) (simp_all add: amount_value_integer)

lemma js_sub_exact:
  assumes "\<bar>a\<bar> + \<bar>b\<bar> \<le> 2 ^ 53"
  shows "js_sub (Finite (of_int a)) (Finite (of_int b)) = Finite (of_int a - of_int b)"
proof (cases "b = 0")
  case True
  then show ?thesis by (simp add: js_sub_def)
next
  case False
  from assms have "\<bar>a - b\<bar> \<le> 2 ^ 53" by simp
  from round_double_int [OF this] False show ?thesis
    by (simp add: js_sub_def)
qed

lemma calculateTotals_exact:
  assumes int: "\<forall>r\<in>set rs. integer_amount (amount r)"
    and bound: "(\<Sum>r\<leftarrow>rs. \<bar>amount_value (amount r)\<bar>) \<le> 2 ^ 53"
  shows "calculateTotals rs =
     \<lparr>totalIncome = Finite (sum_amounts (str ''Income'') rs),
      totalExpense = Finite (sum_amounts (str ''Expense'') rs),
      totalBalance = Finite (sum_amounts (str ''Income'') rs - sum_amounts (str ''Expense'') rs)\<rparr>"
proof -
  let ?inc = "filter (\<lambda>r. rtype r = str ''Income'') rs"
  let ?exp = "filter (\<lambda>r. rtype r = str ''Expense'') rs"
  let ?F = "\<lambda>sum r. js_add sum (or_zero (amount r))"
  from bound have "(of_int (\<Sum>r\<leftarrow>rs. \<bar>amount_int r\<bar>) :: rat) \<le> of_int (2 ^ 53)"
    by (simp add: sum_abs_int [OF int])
  then have all: "(\<Sum>r\<leftarrow>rs. \<bar>amount_int r\<bar>) \<le> 2 ^ 53" by (simp only: of_int_le_iff)
  have two: "(\<Sum>r\<leftarrow>?inc. \<bar>amount_int r\<bar>) + (\<Sum>r\<leftarrow>?exp. \<bar>amount_int r\<bar>) \<le> (\<Sum>r\<leftarrow>rs. \<bar>amount_int r\<bar>)"
    by (rule sum_abs_two_filters) simp
  have nn: "0 \<le> (\<Sum>r\<leftarrow>?inc. \<bar>amount_int r\<bar>)" "0 \<le> (\<Sum>r\<leftarrow>?exp. \<bar>amount_int r\<bar>)"
    by (rule sum_list_nonneg, auto)+
  have i: "foldl ?F (Finite (of_int 0)) ?inc = Finite (of_int (0 + (\<Sum>r\<leftarrow>?inc. amount_int r)))"
    using int all two nn by (intro foldl_exact) auto
  have e: "foldl ?F (Finite (of_int 0)) ?exp = Finite (of_int (0 + (\<Sum>r\<leftarrow>?exp. amount_int r)))"
    using int all two nn by (intro foldl_exact) auto
  have "\<bar>\<Sum>r\<leftarrow>?inc. amount_int r\<bar> \<le> (\<Sum>r\<leftarrow>?inc. \<bar>amount_int r\<bar>)"
    "\<bar>\<Sum>r\<leftarrow>?exp. amount_int r\<bar> \<le> (\<Sum>r\<leftarrow>?exp. \<bar>amount_int r\<bar>)"
    using sum_list_abs [of "map amount_int ?inc"] sum_list_abs [of "map amount_int ?exp"]
    by (simp_all add: comp_def)
  with all two have "\<bar>\<Sum>r\<leftarrow>?inc. amount_int r\<bar> + \<bar>\<Sum>r\<leftarrow>?exp. amount_int r\<bar> \<le> 2 ^ 53" by linarith
  from js_sub_exact [OF this] i e show ?thesis
    by (simp add: calculateTotals_def Let_def sum_amounts_int [OF int])
qed

lemma round_double_above_2_53: "round_double 9007199254740993 = Finite 9007199254740992"
proof -
  have e: "exponent 9007199254740993 = 53" by (rule exponent_eqI) simp_all
  have "\<lfloor>9007199254740993 / 2 :: rat\<rfloor> = 4503599627370496"
    by (rule floor_unique) simp_all
  then have "round_half_even (9007199254740993 / 2) = 4503599627370496"
    by (simp add: round_half_even_def Let_def)
  with e show ?thesis
    by (simp add: round_double_def Let_def overflow_threshold_def)
qed

text \<open>
  Claim C1, as amended. For every sequence of records, \<open>totalIncome\<close> is the sum,
  added up in order from 0 in double arithmetic, of the amounts of the records whose
  type is exactly \<open>Income\<close>, \<open>totalExpense\<close> the same for \<open>Expense\<close>, an
  amount that is not a number counting as 0, and \<open>totalBalance\<close> their difference
  in double arithmetic. When every amount is an integer or not a number and the
  absolute values of the amounts add up to no more than 2 to the power 53, the three
  totals are the exact sums and their difference. The function is total, and on the
  empty sequence all three totals are 0.
\<close>

theorem calculateTotals_in_doubles:
  "((\<forall>r\<in>set rs. integer_amount (amount r)) \<and> (\<Sum>r\<leftarrow>rs. \<bar>amount_value (amount r)\<bar>) \<le> 2 ^ 53 \<longrightarrow>
      calculateTotals rs =
        \<lparr>totalIncome = Finite (sum_amounts (str ''Income'') rs),
         totalExpense = Finite (sum_amounts (str ''Expense'') rs),
         totalBalance =
           Finite (sum_amounts (str ''Income'') rs - sum_amounts (str ''Expense'') rs)\<rparr>)
   \<and> totalIncome (calculateTotals rs)
       = foldl js_add (Finite 0)
           (map (\<lambda>r. or_zero (amount r)) (filter (\<lambda>r. rtype r = str ''Income'') rs))
   \<and> totalExpense (calculateTotals rs)
       = foldl js_add (Finite 0)
           (map (\<lambda>r. or_zero (amount r)) (filter (\<lambda>r. rtype r = str ''Expense'') rs))
   \<and> totalBalance (calculateTotals rs)
       = js_sub (totalIncome (calculateTotals rs)) (totalExpense (calculateTotals rs))
   \<and> calculateTotals []
       = \<lparr>totalIncome = Finite 0, totalExpense = Finite 0, totalBalance = Finite 0\<rparr>"
proof -
  have z: "calculateTotals []
       = \<lparr>totalIncome = Finite 0, totalExpense = Finite 0, totalBalance = Finite 0\<rparr>"
    by (simp add: calculateTotals_def Let_def js_sub_def)
  have x: "(\<forall>r\<in>set rs. integer_amount (amount r)) \<and> (\<Sum>r\<leftarrow>rs. \<bar>amount_value (amount r)\<bar>) \<le> 2 ^ 53 \<longrightarrow>
      calculateTotals rs =
        \<lparr>totalIncome = Finite (sum_amounts (str ''Income'') rs),
         totalExpense = Finite (sum_amounts (str ''Expense'') rs),
         totalBalance =
           Finite (sum_amounts (str ''Income'') rs - sum_amounts (str ''Expense'') rs)\<rparr>"
    using calculateTotals_exact [of rs] by blast
  have f: "totalIncome (calculateTotals rs)
       = foldl js_add (Finite 0)
           (map (\<lambda>r. or_zero (amount r)) (filter (\<lambda>r. rtype r = str ''Income'') rs))"
    "totalExpense (calculateTotals rs)
       = foldl js_add (Finite 0)
           (map (\<lambda>r. or_zero (amount r)) (filter (\<lambda>r. rtype r = str ''Expense'') rs))"
    "totalBalance (calculateTotals rs)
       = js_sub (totalIncome (calculateTotals rs)) (totalExpense (calculateTotals rs))"
    by (simp_all add: calculateTotals_def Let_def foldl_map)
  from x f z show ?thesis by (intro conjI)
qed

theorem calculateTotals_in_doubles_witness:
  "integer_amount (amount rec1) \<and> integer_amount NaN \<and> integer_amount (Finite 30)
   \<and> calculateTotals
     [rec1, rec1\<lparr>rtype := str ''income''\<rparr>, rec1\<lparr>amount := NaN\<rparr>,
      rec1\<lparr>rtype := str ''Expense'', amount := Finite 30\<rparr>]
   = \<lparr>totalIncome = Finite 100, totalExpense = Finite 30, totalBalance = Finite 70\<rparr>"
proof -
  let ?rs = "[rec1, rec1\<lparr>rtype := str ''income''\<rparr>, rec1\<lparr>amount := NaN\<rparr>,
      rec1\<lparr>rtype := str ''Expense'', amount := Finite 30\<rparr>]"
  have i: "\<forall>r\<in>set ?rs. integer_amount (amount r)" by (simp add: rec1_def)
  have b: "(\<Sum>r\<leftarrow>?rs. \<bar>amount_value (amount r)\<bar>) \<le> 2 ^ 53" by (simp add: rec1_def)
  from calculateTotals_in_doubles [of ?rs] i b
  have "calculateTotals ?rs =
        \<lparr>totalIncome = Finite (sum_amounts (str ''Income'') ?rs),
         totalExpense = Finite (sum_amounts (str ''Expense'') ?rs),
         totalBalance =
           Finite (sum_amounts (str ''Income'') ?rs - sum_amounts (str ''Expense'') ?rs)\<rparr>"
    by blast
  moreover have "sum_amounts (str ''Income'') ?rs = 100" "sum_amounts (str ''Expense'') ?rs = 30"
    by (simp_all add: sum_amounts_def rec1_def)
  moreover have "integer_amount (amount rec1)" "integer_amount NaN" "integer_amount (Finite 30)"
    by (simp_all add: rec1_def)
  ultimately show ?thesis by simp
qed

lemma round_double_2_1023: "round_double (2 ^ 1023) = Finite (2 ^ 1023)"
proof -
  have e: "exponent (2 ^ 1023) = 1023" by (rule exponent_eqI) simp_all
  have "overflow_threshold = 2 * 2 ^ 1023" by (simp add: overflow_threshold_def)
  then have s: "\<bar>2 ^ 1023\<bar> < overflow_threshold" by simp
  have m: "(2 ^ 1023 :: rat) = of_int (2 ^ 52) * 2 powi (max (exponent (2 ^ 1023)) (- 1022) - 52)"
    unfolding e by simp
  show ?thesis by (rule round_double_exact [OF _ m s]) simp
qed

lemma round_double_2_1024: "round_double (2 ^ 1023 + 2 ^ 1023) = PosInf"
proof -
  have q: "(2 ^ 1023 + 2 ^ 1023 :: rat) = 2 ^ 1024" by simp
  have e: "exponent (2 ^ 1024) = 1024" by (rule exponent_eqI) simp_all
  have d: "(2 ^ 1024 :: rat) / 2 powi 972 = of_int (2 ^ 52)" by simp
  have r: "round_half_even ((2 ^ 1024 :: rat) / 2 powi 972) = 2 ^ 52"
    unfolding d by (rule round_half_even_of_int)
  have t: "overflow_threshold \<le> \<bar>of_int (2 ^ 52) * 2 powi 972\<bar>"
    by (simp add: overflow_threshold_def)
  have "round_double (2 ^ 1024) = PosInf"
    unfolding round_double_def Let_def e using r t by simp
  with q show ?thesis by simp
qed

lemma round_double_twice_2_1023: "round_double (2 * 2 ^ 1023) = PosInf"
  using round_double_2_1024 by simp

lemma overflow_example:
  "calculateTotals [huge, huge, huge\<lparr>rtype := str ''Expense''\<rparr>, huge\<lparr>rtype := str ''Expense''\<rparr>]
       = \<lparr>totalIncome = PosInf, totalExpense = PosInf, totalBalance = NaN\<rparr>"
proof -
  have a: "js_add (Finite 0) (Finite (2 ^ 1023)) = Finite (2 ^ 1023)"
    using round_double_2_1023 by simp
  have b: "js_add (Finite (2 ^ 1023)) (Finite (2 ^ 1023)) = PosInf"
    using round_double_2_1024 by simp
  have o: "or_zero (Finite (2 ^ 1023)) = Finite (2 ^ 1023)" by (simp add: or_zero_def)
  have c: "js_add PosInf NegInf = NaN" by simp
  show ?thesis
    unfolding calculateTotals_def Let_def huge_def rec1_def
    by (simp add: round_double_2_1023 round_double_twice_2_1023 o js_sub_def del: power_numeral)
qed

lemma round_double_tenth:
  "round_double (3602879701896397 / 36028797018963968) = Finite (3602879701896397 / 36028797018963968)"
proof -
  have e: "exponent (3602879701896397 / 36028797018963968) = - 4"
    by (rule exponent_eqI) (simp_all add: power_int_minus_divide)
  have m: "(3602879701896397 / 36028797018963968 :: rat)
      = of_int 7205759403792794 * 2 powi (max (exponent (3602879701896397 / 36028797018963968)) (- 1022) - 52)"
    unfolding e by (simp add: power_int_minus_divide)
  have s: "\<bar>3602879701896397 / 36028797018963968 :: rat\<bar> < overflow_threshold"
    by (simp add: overflow_threshold_def)
  show ?thesis by (rule round_double_exact [OF _ m s]) simp
qed

lemma round_double_three_tenths:
  "round_double (3602879701896397 / 36028797018963968 + 3602879701896397 / 18014398509481984)
     = Finite (1351079888211149 / 4503599627370496)"
proof -
  have q: "(3602879701896397 / 36028797018963968 + 3602879701896397 / 18014398509481984 :: rat)
      = 10808639105689191 / 36028797018963968" by simp
  have e: "exponent (10808639105689191 / 36028797018963968) = - 2"
    by (rule exponent_eqI) (simp_all add: power_int_minus_divide)
  have f: "\<lfloor>10808639105689191 / 2 :: rat\<rfloor> = 5404319552844595"
    by (rule floor_unique) simp_all
  have d: "(10808639105689191 / 36028797018963968 :: rat) / 2 powi (- 54) = 10808639105689191 / 2"
    by (simp add: power_int_minus_divide)
  have r: "round_half_even (10808639105689191 / 2) = 5404319552844596"
    using f by (simp add: round_half_even_def Let_def)
  have "round_double (10808639105689191 / 36028797018963968)
      = Finite (1351079888211149 / 4503599627370496)"
    unfolding round_double_def Let_def e using d r
    by (simp add: overflow_threshold_def power_int_minus_divide)
  with q show ?thesis by simp
qed

lemma fraction_example:
  "totalIncome (calculateTotals [tenth, fifth]) = Finite (1351079888211149 / 4503599627370496)
   \<and> sum_amounts (str ''Income'') [tenth, fifth] = 10808639105689191 / 36028797018963968"
proof -
  have a: "js_add (Finite 0) (Finite (3602879701896397 / 36028797018963968))
      = Finite (3602879701896397 / 36028797018963968)"
    using round_double_tenth by simp
  have b: "js_add (Finite (3602879701896397 / 36028797018963968))
        (Finite (3602879701896397 / 18014398509481984))
      = Finite (1351079888211149 / 4503599627370496)"
    using round_double_three_tenths by (simp only: js_add.simps)
  have o: "or_zero (Finite (3602879701896397 / 36028797018963968))
        = Finite (3602879701896397 / 36028797018963968)"
    "or_zero (Finite (3602879701896397 / 18014398509481984))
        = Finite (3602879701896397 / 18014398509481984)"
    by (simp_all add: or_zero_def)
  have "totalIncome (calculateTotals [tenth, fifth])
      = js_add (js_add (Finite 0) (or_zero (Finite (3602879701896397 / 36028797018963968))))
          (or_zero (Finite (3602879701896397 / 18014398509481984)))"
    by (simp add: calculateTotals_def Let_def tenth_def fifth_def rec1_def del: js_add.simps)
  also have "\<dots> = Finite (1351079888211149 / 4503599627370496)"
    by (simp only: o a b)
  finally have 1: "totalIncome (calculateTotals [tenth, fifth])
      = Finite (1351079888211149 / 4503599627370496)" .
  have 2: "sum_amounts (str ''Income'') [tenth, fifth] = 10808639105689191 / 36028797018963968"
    by (simp add: sum_amounts_def tenth_def fifth_def rec1_def)
  from 1 2 show ?thesis by (intro conjI)
qed

text \<open>
  Claim C1 as first stated fails: the income of the amounts 2 to the power 53 and 1 is
  2 to the power 53, not their sum; two amounts of 2 to the power 1023 of each type
  give an infinite income, an infinite expense and the balance NaN; and the income of
  the doubles nearest to one tenth and one fifth is not their sum either.
\<close>

theorem calculateTotals_exact_sum_counterexample:
  "totalIncome (calculateTotals [big, rec1\<lparr>amount := Finite 1\<rparr>]) = Finite 9007199254740992
   \<and> sum_amounts (str ''Income'') [big, rec1\<lparr>amount := Finite 1\<rparr>] = 9007199254740993
   \<and> calculateTotals
        [huge, huge, huge\<lparr>rtype := str ''Expense''\<rparr>, huge\<lparr>rtype := str ''Expense''\<rparr>]
       = \<lparr>totalIncome = PosInf, totalExpense = PosInf, totalBalance = NaN\<rparr>
   \<and> totalIncome (calculateTotals [tenth, fifth])
       = Finite (1351079888211149 / 4503599627370496)
   \<and> sum_amounts (str ''Income'') [tenth, fifth] = 10808639105689191 / 36028797018963968"
proof -
  have r0: "round_double 9007199254740992 = Finite 9007199254740992"
    using round_double_int [of 9007199254740992] by simp
  have 1: "totalIncome (calculateTotals [big, rec1\<lparr>amount := Finite 1\<rparr>]) = Finite 9007199254740992"
    by (simp add: calculateTotals_def Let_def big_def rec1_def or_zero_def r0 round_double_above_2_53)
  have 2: "sum_amounts (str ''Income'') [big, rec1\<lparr>amount := Finite 1\<rparr>] = 9007199254740993"
    by (simp add: sum_amounts_def big_def rec1_def)
  from fraction_example
  have 4: "totalIncome (calculateTotals [tenth, fifth])
       = Finite (1351079888211149 / 4503599627370496)"
    and 5: "sum_amounts (str ''Income'') [tenth, fifth] = 10808639105689191 / 36028797018963968"
    by (rule conjunct1, rule conjunct2)
  from 1 2 overflow_example 4 5 show ?thesis by (intro conjI)
qed

subsection \<open>Calendar windows\<close>










lemma str_append: "str (a @ b) = str a @ str b"
  by (simp add: str_def)



text \<open>
  Claim C3. For every filter token other than \<open>today\<close>, \<open>month\<close> and
  \<open>year\<close>, a missing token among them, the time filter answers 400 with an error
  body: no window is chosen and no record is returned.
\<close>

theorem invalid_filter_rejected:
  "flt \<notin> {Some (QStr (str ''today'')), Some (QStr (str ''month'')), Some (QStr (str ''year''))}
   \<Longrightarrow> expenses_by_time u now flt st = invalid_filter
       \<and> fst (expenses_by_time u now flt st) = 400
       \<and> (\<exists>m. snd (expenses_by_time u now flt st) = Error m)"
proof -
  assume a: "flt \<notin> {Some (QStr (str ''today'')), Some (QStr (str ''month'')),
    Some (QStr (str ''year''))}"
  have "expenses_by_time u now flt st = invalid_filter"
  proof (cases flt)
    case None
    then show ?thesis by simp
  next
    case (Some q)
    with a show ?thesis
      by (cases q) (auto simp: validFilters_def)
  qed
  then show ?thesis by (simp add: invalid_filter_def)
qed

theorem invalid_filter_rejected_witness:
  "fst (expenses_by_time alice (date rec1) None [rec1, rec2]) = 400
   \<and> fst (expenses_by_time alice (date rec1) (Some (QStr (str ''week''))) [rec1, rec2]) = 400
   \<and> fst (expenses_by_time alice (date rec1) (Some (QStr (str ''Today''))) [rec1, rec2]) = 400
   \<and> fst (expenses_by_time alice (date rec1) (Some (QArr [QStr (str ''today'')])) [rec1, rec2]) = 400"
  using invalid_filter_rejected [of None alice "date rec1" "[rec1, rec2]"]
    invalid_filter_rejected [of "Some (QStr (str ''week''))" alice "date rec1" "[rec1, rec2]"]
    invalid_filter_rejected [of "Some (QStr (str ''Today''))" alice "date rec1" "[rec1, rec2]"]
    invalid_filter_rejected [of "Some (QArr [QStr (str ''today'')])" alice "date rec1" "[rec1, rec2]"]
  by simp

text \<open>
  Claim C10. A request to create a record whose amount is the number 0 is answered 400,
  as if the amount were missing, whatever its other fields, and the store is as it was.
\<close>

theorem create_zero_amount_rejected:
  "create_expense dayjs_isValid Expense_create u (body\<lparr>b_amount := Some (JNum 0)\<rparr>) st
     = ((400, Error (str ''Type, amount, and date are required.'')), st)"
  by (simp add: create_expense_def)

theorem create_zero_amount_rejected_witness:
  "create_expense (\<lambda>d. True) (\<lambda>b owner st. Inr (rec1\<lparr>userId := owner\<rparr>)) alice
     \<lparr>b_type = Some (JStr (str ''Expense'')), b_amount = Some (JNum 0),
      b_category = Some (JStr (str ''Food'')), b_date = Some (JStr (str ''2024-03-15'')),
      b_description = None\<rparr> [rec1]
   = ((400, Error (str ''Type, amount, and date are required.'')), [rec1])"
  using create_zero_amount_rejected
    [of "\<lambda>d. True" "\<lambda>b owner st. Inr (rec1\<lparr>userId := owner\<rparr>)" alice
        "\<lparr>b_type = Some (JStr (str ''Expense'')), b_amount = Some (JNum 5),
          b_category = Some (JStr (str ''Food'')), b_date = Some (JStr (str ''2024-03-15'')),
          b_description = None\<rparr>" "[rec1]"]
  by simp

subsection \<open>Ids, update and delete, login\<close>

lemma castObjectId_id1: "castObjectId id1 = Some 1"
  by (simp add: castObjectId_def hex_value_def hex_digit_def id1_def str_def)

lemma castObjectId_id10: "castObjectId id10 = Some 10"
  by (simp add: castObjectId_def hex_value_def hex_digit_def id10_def str_def)

lemma castObjectId_abc: "castObjectId (str ''abc'') = None"
  by (simp add: castObjectId_def str_def)

lemma findByIdAndDelete_absent:
  "i \<notin> rid ` set st \<Longrightarrow> findByIdAndDelete i st = (None, st)"
  by (induction st) auto

text \<open>
  Claim C8, as amended. For every id that is a well-formed ObjectId, 24 hexadecimal
  digits, and that no record of the store has, deleting answers 404 with
  \<open>Record not found\<close>, and the store is as it was. For every id that is no
  well-formed ObjectId the query throws and the handler answers 500, the store as it
  was.
\<close>

theorem delete_absent_not_found:
  "(castObjectId idstr = Some i \<and> i \<notin> rid ` set st \<longrightarrow>
      delete_expense u idstr st = ((404, Error (str ''Record not found'')), st))
   \<and> (castObjectId idstr = None \<longrightarrow>
      delete_expense u idstr st = ((500, CastError idstr), st))"
  by (simp add: delete_expense_def findByIdAndDelete_absent)

theorem delete_absent_not_found_witness:
  "castObjectId id10 = Some 10 \<and> 10 \<notin> rid ` set [rec1, rec2]
   \<and> delete_expense alice id10 [rec1, rec2]
       = ((404, Error (str ''Record not found'')), [rec1, rec2])
   \<and> castObjectId (str ''7'') = None
   \<and> delete_expense alice (str ''7'') [rec1, rec2]
       = ((500, CastError (str ''7'')), [rec1, rec2])"
proof -
  have a: "10 \<notin> rid ` set [rec1, rec2]" by (simp add: rec1_def rec2_def)
  have b: "castObjectId (str ''7'') = None" by (simp add: castObjectId_def str_def)
  from delete_absent_not_found [of id10 10 "[rec1, rec2]" alice] castObjectId_id10 a
  have c: "delete_expense alice id10 [rec1, rec2]
       = ((404, Error (str ''Record not found'')), [rec1, rec2])" by blast
  from delete_absent_not_found [of "str ''7''" 10 "[rec1, rec2]" alice] b
  have d: "delete_expense alice (str ''7'') [rec1, rec2]
       = ((500, CastError (str ''7'')), [rec1, rec2])" by blast
  from castObjectId_id10 a b c d show ?thesis by (intro conjI)
qed

text \<open>
  Claim C8 as first stated fails: the id \<open>abc\<close> is the id of no record, and
  deleting it answers 500, not 404.
\<close>

theorem delete_malformed_id_counterexample:
  "castObjectId (str ''abc'') = None
   \<and> delete_expense alice (str ''abc'') [rec1, rec2]
       = ((500, CastError (str ''abc'')), [rec1, rec2])"
  by (simp add: delete_expense_def castObjectId_abc)

lemma findByIdAndUpdate_owners:
  "findByIdAndUpdate i b st = (found, st') \<Longrightarrow>
     map rid st' = map rid st \<and> map userId st' = map userId st"
proof (induction st arbitrary: found st')
  case Nil
  then show ?case by simp
next
  case (Cons r rs)
  show ?case
  proof (cases "rid r = i")
    case True
    with Cons.prems show ?thesis by (auto simp: apply_update_def)
  next
    case False
    obtain f rs' where rec: "findByIdAndUpdate i b rs = (f, rs')"
      by (cases "findByIdAndUpdate i b rs")
    with False Cons.prems have "st' = r # rs'" by auto
    with Cons.IH [OF rec] show ?thesis by simp
  qed
qed

lemma findByIdAndDelete_remove1:
  "findByIdAndDelete i st = (Some r, st') \<Longrightarrow> st' = remove1 r st \<and> r \<in> set st \<and> rid r = i"
proof (induction st arbitrary: st')
  case Nil
  then show ?case by simp
next
  case (Cons x xs)
  show ?case
  proof (cases "rid x = i")
    case True
    with Cons.prems show ?thesis by auto
  next
    case False
    obtain f xs' where rec: "findByIdAndDelete i xs = (f, xs')"
      by (cases "findByIdAndDelete i xs")
    with False Cons.prems have f: "f = Some r" and s: "st' = x # xs'" by auto
    from Cons.IH [of xs'] rec f have "xs' = remove1 r xs \<and> r \<in> set xs \<and> rid r = i" by simp
    with False s show ?thesis by auto
  qed
qed

text \<open>
  Claim C5. For every successful update or delete of a record by id, the totals of the
  response are computed over the whole store as the operation leaves it, the records of
  every user, and not over the records of the caller. An update keeps the ids and the
  owners of the store, a delete removes the one record.
\<close>

theorem update_delete_totals_whole_store:
  "(update_expense u i body st = ((200, Updated r t), st') \<longrightarrow>
      t = calculateTotals st' \<and> map rid st' = map rid st \<and> map userId st' = map userId st)
   \<and> (delete_expense u i st = ((200, Deleted r t), st') \<longrightarrow>
      t = calculateTotals st' \<and> st' = remove1 r st)"
proof (rule conjI; rule impI)
  assume a: "update_expense u i body st = ((200, Updated r t), st')"
  then obtain k where k: "castObjectId i = Some k"
    by (cases "castObjectId i") (simp_all add: update_expense_def)
  obtain f s where fu: "findByIdAndUpdate k body st = (f, s)"
    by (cases "findByIdAndUpdate k body st")
  with a k have "s = st'" "t = calculateTotals st'"
    by (auto simp: update_expense_def split: option.splits)
  with findByIdAndUpdate_owners [OF fu]
  show "t = calculateTotals st' \<and> map rid st' = map rid st \<and> map userId st' = map userId st"
    by simp
next
  assume a: "delete_expense u i st = ((200, Deleted r t), st')"
  then obtain k where k: "castObjectId i = Some k"
    by (cases "castObjectId i") (simp_all add: delete_expense_def)
  obtain f s where fd: "findByIdAndDelete k st = (f, s)"
    by (cases "findByIdAndDelete k st")
  with a k have "f = Some r" "s = st'" "t = calculateTotals st'"
    by (auto simp: delete_expense_def split: option.splits)
  with findByIdAndDelete_remove1 [of k st r st'] fd
  show "t = calculateTotals st' \<and> st' = remove1 r st" by simp
qed

lemma totals_50:
  "calculateTotals [rec1\<lparr>amount := Finite 10\<rparr>, rec2]
     = \<lparr>totalIncome = Finite 50, totalExpense = Finite 0, totalBalance = Finite 50\<rparr>"
  using calculateTotals_exact [of "[rec1\<lparr>amount := Finite 10\<rparr>, rec2]"]
  by (simp add: sum_amounts_def rec1_def rec2_def)

lemma totals_40:
  "calculateTotals [rec2]
     = \<lparr>totalIncome = Finite 40, totalExpense = Finite 0, totalBalance = Finite 40\<rparr>"
  using calculateTotals_exact [of "[rec2]"]
  by (simp add: sum_amounts_def rec2_def)

lemma totals_10:
  "calculateTotals [rec1\<lparr>amount := Finite 10\<rparr>]
     = \<lparr>totalIncome = Finite 10, totalExpense = Finite 0, totalBalance = Finite 10\<rparr>"
  using calculateTotals_exact [of "[rec1\<lparr>amount := Finite 10\<rparr>]"]
  by (simp add: sum_amounts_def rec1_def)

lemma totals_0:
  "calculateTotals []
     = \<lparr>totalIncome = Finite 0, totalExpense = Finite 0, totalBalance = Finite 0\<rparr>"
  by (simp add: calculateTotals_def Let_def js_sub_def)

theorem update_delete_totals_whole_store_witness:
  "update_expense alice id1 raise10 [rec1, rec2]
     = ((200, Updated (rec1\<lparr>amount := Finite 10\<rparr>)
          \<lparr>totalIncome = Finite 50, totalExpense = Finite 0, totalBalance = Finite 50\<rparr>),
        [rec1\<lparr>amount := Finite 10\<rparr>, rec2])
   \<and> calculateTotals [rec1\<lparr>amount := Finite 10\<rparr>, rec2]
     = \<lparr>totalIncome = Finite 50, totalExpense = Finite 0, totalBalance = Finite 50\<rparr>
   \<and> calculateTotals (filter (\<lambda>r. userId r = uid alice) [rec1\<lparr>amount := Finite 10\<rparr>, rec2])
     = \<lparr>totalIncome = Finite 10, totalExpense = Finite 0, totalBalance = Finite 10\<rparr>
   \<and> delete_expense alice id1 [rec1, rec2]
     = ((200, Deleted rec1
          \<lparr>totalIncome = Finite 40, totalExpense = Finite 0, totalBalance = Finite 40\<rparr>),
        [rec2])
   \<and> calculateTotals [rec2]
     = \<lparr>totalIncome = Finite 40, totalExpense = Finite 0, totalBalance = Finite 40\<rparr>
   \<and> calculateTotals (filter (\<lambda>r. userId r = uid alice) [rec2])
     = \<lparr>totalIncome = Finite 0, totalExpense = Finite 0, totalBalance = Finite 0\<rparr>"
proof -
  have fu: "findByIdAndUpdate 1 raise10 [rec1, rec2]
      = (Some (rec1\<lparr>amount := Finite 10\<rparr>), [rec1\<lparr>amount := Finite 10\<rparr>, rec2])"
    by (simp add: apply_update_def raise10_def rec1_def)
  have fd: "findByIdAndDelete 1 [rec1, rec2] = (Some rec1, [rec2])"
    by (simp add: rec1_def)
  have u: "update_expense alice id1 raise10 [rec1, rec2]
     = ((200, Updated (rec1\<lparr>amount := Finite 10\<rparr>)
          \<lparr>totalIncome = Finite 50, totalExpense = Finite 0, totalBalance = Finite 50\<rparr>),
        [rec1\<lparr>amount := Finite 10\<rparr>, rec2])"
    by (simp only: update_expense_def castObjectId_id1 fu totals_50 Let_def option.case prod.case)
  have d: "delete_expense alice id1 [rec1, rec2]
     = ((200, Deleted rec1
          \<lparr>totalIncome = Finite 40, totalExpense = Finite 0, totalBalance = Finite 40\<rparr>),
        [rec2])"
    by (simp only: delete_expense_def castObjectId_id1 fd totals_40 Let_def option.case prod.case)
  from u update_delete_totals_whole_store
    [of alice id1 raise10 "[rec1, rec2]" "rec1\<lparr>amount := Finite 10\<rparr>"
        "\<lparr>totalIncome = Finite 50, totalExpense = Finite 0, totalBalance = Finite 50\<rparr>"
        "[rec1\<lparr>amount := Finite 10\<rparr>, rec2]"]
  have t1: "calculateTotals [rec1\<lparr>amount := Finite 10\<rparr>, rec2]
     = \<lparr>totalIncome = Finite 50, totalExpense = Finite 0, totalBalance = Finite 50\<rparr>"
    by simp
  from d update_delete_totals_whole_store
    [of alice id1 raise10 "[rec1, rec2]" rec1
        "\<lparr>totalIncome = Finite 40, totalExpense = Finite 0, totalBalance = Finite 40\<rparr>"
        "[rec2]"]
  have t2: "calculateTotals [rec2]
     = \<lparr>totalIncome = Finite 40, totalExpense = Finite 0, totalBalance = Finite 40\<rparr>"
    by simp
  have "filter (\<lambda>r. userId r = uid alice) [rec1\<lparr>amount := Finite 10\<rparr>, rec2]
      = [rec1\<lparr>amount := Finite 10\<rparr>]"
    by (simp add: rec1_def rec2_def alice_def)
  then have o1: "calculateTotals (filter (\<lambda>r. userId r = uid alice) [rec1\<lparr>amount := Finite 10\<rparr>, rec2])
     = \<lparr>totalIncome = Finite 10, totalExpense = Finite 0, totalBalance = Finite 10\<rparr>"
    by (simp only: totals_10)
  have "filter (\<lambda>r. userId r = uid alice) [rec2] = []"
    by (simp add: rec2_def alice_def)
  then have o2: "calculateTotals (filter (\<lambda>r. userId r = uid alice) [rec2])
     = \<lparr>totalIncome = Finite 0, totalExpense = Finite 0, totalBalance = Finite 0\<rparr>"
    by (simp only: totals_0)
  from u d t1 t2 o1 o2 show ?thesis by (intro conjI)
qed

text \<open>
  Claim C7. For every login whose email is that of a stored user and whose password
  does not verify against the stored hash, the answer is a 400 with a message and no
  token. When the request passes the presence and format checks the message is
  \<open>Invalid password\<close>, while an email of no user gives a 404 with
  \<open>User not found\<close>: the two failures are told apart.
\<close>

theorem login_wrong_password:
  "(find (\<lambda>u. email u = e) users = Some usr \<and> \<not> bcrypt_compare p (password usr) \<longrightarrow>
      (\<exists>m. login bcrypt_compare jwt_sign (Some e) (Some p) users = (400, Message m)))
   \<and> (e \<noteq> [] \<and> p \<noteq> [] \<and> emailRegex_test e
        \<and> find (\<lambda>u. email u = e) users = Some usr \<and> \<not> bcrypt_compare p (password usr) \<longrightarrow>
      login bcrypt_compare jwt_sign (Some e) (Some p) users
        = (400, Message (str ''Invalid password'')))
   \<and> (e \<noteq> [] \<and> p \<noteq> [] \<and> emailRegex_test e \<and> find (\<lambda>u. email u = e) users = None \<longrightarrow>
      login bcrypt_compare jwt_sign (Some e) (Some p) users
        = (404, Message (str ''User not found'')))
   \<and> (400, Message (str ''Invalid password'')) \<noteq> (404 :: nat, Message (str ''User not found''))"
  by simp

theorem login_wrong_password_witness:
  "find (\<lambda>u. email u = str ''alice@example.com'') [alice, bob] = Some alice
   \<and> \<not> (\<lambda>p h. h = str ''$2b$10$'' @ p) (str ''guess'') (password alice)
   \<and> login (\<lambda>p h. h = str ''$2b$10$'' @ p) (\<lambda>i e. str ''jwt '' @ e)
       (Some (str ''alice@example.com'')) (Some (str ''guess'')) [alice, bob]
      = (400, Message (str ''Invalid password''))
   \<and> login (\<lambda>p h. h = str ''$2b$10$'' @ p) (\<lambda>i e. str ''jwt '' @ e)
       (Some (str ''carol@example.com'')) (Some (str ''guess'')) [alice, bob]
      = (404, Message (str ''User not found''))
   \<and> login (\<lambda>p h. h = str ''$2b$10$'' @ p) (\<lambda>i e. str ''jwt '' @ e)
       (Some (str ''alice@example.com'')) (Some (str ''hash'')) [alice, bob]
      = (200, LoggedIn (str ''jwt alice@example.com'') 1 (str ''Alice'') (str ''alice@example.com''))"
proof -
  have a: "emailRegex_test (str ''alice@example.com'')"
    by (simp add: emailRegex_test_def local_char_def domain_char_def is_alnum_def is_alpha_def
        Let_def str_def)
  have c: "emailRegex_test (str ''carol@example.com'')"
    by (simp add: emailRegex_test_def local_char_def domain_char_def is_alnum_def is_alpha_def
        Let_def str_def)
  have f: "find (\<lambda>u. email u = str ''alice@example.com'') [alice, bob] = Some alice"
    by (simp add: alice_def)
  have g: "find (\<lambda>u. email u = str ''carol@example.com'') [alice, bob] = None"
    by (simp add: alice_def bob_def)
  have w: "\<not> (\<lambda>p h. h = str ''$2b$10$'' @ p) (str ''guess'') (password alice)"
    by (simp add: alice_def str_def)
  have n: "str ''alice@example.com'' \<noteq> []" "str ''carol@example.com'' \<noteq> []"
    "str ''guess'' \<noteq> []" "str ''hash'' \<noteq> []"
    by (simp_all add: str_def)
  have ok: "login (\<lambda>p h. h = str ''$2b$10$'' @ p) (\<lambda>i e. str ''jwt '' @ e)
       (Some (str ''alice@example.com'')) (Some (str ''hash'')) [alice, bob]
      = (200, LoggedIn (str ''jwt alice@example.com'') 1 (str ''Alice'') (str ''alice@example.com''))"
    using a f n by (simp add: alice_def str_append [symmetric])
  from login_wrong_password
    [of "str ''alice@example.com''" "[alice, bob]" alice "\<lambda>p h. h = str ''$2b$10$'' @ p"
        "str ''guess''" "\<lambda>i e. str ''jwt '' @ e"] a f w n
  have 1: "login (\<lambda>p h. h = str ''$2b$10$'' @ p) (\<lambda>i e. str ''jwt '' @ e)
       (Some (str ''alice@example.com'')) (Some (str ''guess'')) [alice, bob]
      = (400, Message (str ''Invalid password''))"
    by blast
  from login_wrong_password
    [of "str ''carol@example.com''" "[alice, bob]" alice "\<lambda>p h. h = str ''$2b$10$'' @ p"
        "str ''guess''" "\<lambda>i e. str ''jwt '' @ e"] c g n
  have 2: "login (\<lambda>p h. h = str ''$2b$10$'' @ p) (\<lambda>i e. str ''jwt '' @ e)
       (Some (str ''carol@example.com'')) (Some (str ''guess'')) [alice, bob]
      = (404, Message (str ''User not found''))"
    by blast
  from f w 1 2 ok show ?thesis by (intro conjI)
qed

subsection \<open>Search\<close>

lemma match_here_literal:
  "match_here up (map Lit q) s = prefix (map (Canonicalize up) q) (map (Canonicalize up) s)"
proof (induction q arbitrary: s)
  case Nil
  then show ?case by simp
next
  case (Cons c q)
  then show ?case by (cases s) simp_all
qed

lemma regex_test_literal: "regex_test up (map Lit q) s = contains_ci up q s"
proof (induction s)
  case Nil
  then show ?case by (simp add: contains_ci_def match_here_literal)
next
  case (Cons c s)
  then show ?case by (simp add: contains_ci_def match_here_literal sublist_Cons_right)
qed

lemma regex_field_literal: "regex_field up (map Lit q) f = field_contains_ci up q f"
  by (cases f) (simp_all add: regex_test_literal)

lemma RegExp_literal: "\<forall>c\<in>set q. c \<notin> set metachars \<Longrightarrow> RegExp q = Some (map Lit q)"
proof (induction q)
  case Nil
  then show ?case by simp
next
  case (Cons c q)
  then have "c \<notin> set metachars" by simp
  moreover have "46 \<in> set metachars" by (simp add: metachars_def str_def)
  ultimately have "parse_atom c = Some (Lit c)" by (auto simp: parse_atom_def)
  with Cons show ?case by simp
qed

lemma Canonicalize_ascii: "c < 128 \<Longrightarrow> Canonicalize up c = ascii_upper c"
  by (simp add: Canonicalize_def)

lemma search_expenses_literal:
  assumes t: "trim query \<noteq> []" and lit: "\<forall>c\<in>set query. c \<notin> set metachars"
  shows "search_expenses toUpperCase u (Some (QStr query)) st
       = Some (200, SearchResults (str ''Search results for '' @ [34] @ query @ [34])
                 (length (spec_search toUpperCase query st)) (spec_search toUpperCase query st))"
proof -
  from t have ne: "query \<noteq> []" by (auto simp: trim_def)
  have "filter (\<lambda>r. regex_field toUpperCase (map Lit query) (category r)
                      \<or> regex_field toUpperCase (map Lit query) (description r)
                      \<or> regex_test toUpperCase (map Lit query) (rtype r)) st
          = spec_search toUpperCase query st"
    by (simp add: spec_search_def regex_field_literal regex_test_literal)
  with t ne RegExp_literal [OF lit] show ?thesis
    by (simp add: Let_def)
qed


lemma grocer_plain: "\<forall>c\<in>set (str ''grocer''). c \<notin> set metachars"
  by (simp add: metachars_def str_def)

lemma grocer_trim: "trim (str ''grocer'') \<noteq> []"
  by (simp add: trim_def is_space_def white_space_def str_def)




text \<open>
  Claim C9. The search puts no condition on the owner: its answer does not depend on
  who asks, a caller can be given a record of another user, and two stores with the
  same records of the caller can give the caller different answers.
\<close>

theorem search_not_owner_scoped:
  "search_expenses up u q st = search_expenses up u' q st
   \<and> search_expenses up alice (Some (QStr (str ''grocer''))) [rec1, rec2]
      = Some (200, SearchResults (str ''Search results for '' @ [34] @ str ''grocer'' @ [34])
                1 [rec2])
   \<and> userId rec2 \<noteq> uid alice
   \<and> filter (\<lambda>r. userId r = uid alice) [rec1, rec2] = filter (\<lambda>r. userId r = uid alice) [rec1]
   \<and> search_expenses up alice (Some (QStr (str ''grocer''))) [rec1, rec2]
       \<noteq> search_expenses up alice (Some (QStr (str ''grocer''))) [rec1]"
proof -
  have indep: "search_expenses up u q st = search_expenses up u' q st"
    by (induction up u q st rule: search_expenses.induct) simp_all
  have s2: "spec_search up (str ''grocer'') [rec1, rec2] = [rec2]"
    by (simp add: spec_search_def contains_ci_def Canonicalize_ascii ascii_upper_def
        sublist_code rec1_def rec2_def str_def)
  have s1: "spec_search up (str ''grocer'') [rec1] = []"
    by (simp add: spec_search_def contains_ci_def Canonicalize_ascii ascii_upper_def
        sublist_code rec1_def str_def)
  have a: "search_expenses up alice (Some (QStr (str ''grocer''))) [rec1, rec2]
      = Some (200, SearchResults (str ''Search results for '' @ [34] @ str ''grocer'' @ [34])
                1 [rec2])"
    unfolding search_expenses_literal [OF grocer_trim grocer_plain] s2 by simp
  have b: "search_expenses up alice (Some (QStr (str ''grocer''))) [rec1]
      = Some (200, SearchResults (str ''Search results for '' @ [34] @ str ''grocer'' @ [34])
                0 [])"
    unfolding search_expenses_literal [OF grocer_trim grocer_plain] s1 by simp
  have o: "userId rec2 \<noteq> uid alice" by (simp add: rec2_def alice_def)
  have f: "filter (\<lambda>r. userId r = uid alice) [rec1, rec2]
             = filter (\<lambda>r. userId r = uid alice) [rec1]"
    by (simp add: rec1_def rec2_def alice_def)
  have ab: "search_expenses up alice (Some (QStr (str ''grocer''))) [rec1, rec2]
       \<noteq> search_expenses up alice (Some (QStr (str ''grocer''))) [rec1]"
    unfolding a b by simp
  from indep a o f ab show ?thesis by (intro conjI)
qed

theorem search_not_owner_scoped_witness:
  "search_expenses (\<lambda>c. c) bob (Some (QStr (str ''SALARY''))) [rec1, rec2]
     = search_expenses (\<lambda>c. c) alice (Some (QStr (str ''SALARY''))) [rec1, rec2]
   \<and> search_expenses (\<lambda>c. c) alice (Some (QStr (str ''grocer''))) [rec1, rec2]
       \<noteq> search_expenses (\<lambda>c. c) alice (Some (QStr (str ''grocer''))) [rec1]"
  using search_not_owner_scoped [of "\<lambda>c. c" bob "Some (QStr (str ''SALARY''))" "[rec1, rec2]" alice]
  by blast

end
